theory Spec2Isabelle
  imports Main
begin

section \<open>The query builder of go-rel/rel (query.go)\<close>

text \<open>
  The development embeds \<^verbatim>\<open>vendor/github.com/go-rel/rel/query.go\<close>: the \<^verbatim>\<open>Query\<close>
  aggregate, the merge \<^verbatim>\<open>Query.Build\<close>, the top-level fold \<^verbatim>\<open>Build\<close>, the chainable
  constructors and the debug rendering \<^verbatim>\<open>Query.String\<close>. Go strings are byte strings
  (\<open>string\<close>), Go's \<^verbatim>\<open>int\<close> is \<open>int\<close> (no arithmetic is done on offsets and limits), a
  slice whose nil-ness the code tests is a \<open>list option\<close> (\<open>None\<close> is \<^verbatim>\<open>nil\<close>), every other
  slice is a list.
\<close>

subsection \<open>Filter trees\<close>

text \<open>Argument values of predicates and raw fragments (Go's \<^verbatim>\<open>interface{}\<close>).\<close>

datatype val = VNil | VBool bool | VInt int | VStr string

text \<open>
  Modelled from the spec: the type \<^verbatim>\<open>FilterQuery\<close> is declared outside query.go. The
  spec gives it as a tagged variant over "none" (the identity), a single
  field-operator-value predicate, a raw-text fragment with positional arguments, and the
  "and" and "or" combinators over lists of nested trees.
\<close>

datatype filter =
    FNone
  | FPred string string val
  | FFragment string "val list"
  | FAnd "filter list"
  | FOr "filter list"

text \<open>
  Modelled from the spec: \<^verbatim>\<open>FilterQuery.None\<close> (outside query.go), the predicate testing
  for the identity element.
\<close>

fun FilterQuery_None :: "filter \<Rightarrow> bool" where
  "FilterQuery_None FNone = True"
| "FilterQuery_None _ = False"

text \<open>
  Modelled from the spec: the combination step of \<^verbatim>\<open>FilterQuery.And\<close> (outside query.go).
  Combining with the identity returns the other operand unchanged; a left operand that is
  already an "and" node is extended by the right operand; otherwise both are wrapped in a
  new "and" node.
\<close>

fun and_filter :: "filter \<Rightarrow> filter \<Rightarrow> filter" where
  "and_filter FNone r = r"
| "and_filter l FNone = l"
| "and_filter (FAnd ls) r = FAnd (ls @ [r])"
| "and_filter l r = FAnd [l, r]"

text \<open>
  Modelled from the spec: the combination step of \<^verbatim>\<open>FilterQuery.Or\<close> (outside query.go),
  the same algorithm for the "or" combinator.
\<close>

fun or_filter :: "filter \<Rightarrow> filter \<Rightarrow> filter" where
  "or_filter FNone r = r"
| "or_filter l FNone = l"
| "or_filter (FOr ls) r = FOr (ls @ [r])"
| "or_filter l r = FOr [l, r]"

text \<open>
  Modelled from the spec: the method \<^verbatim>\<open>fq.And(filters...)\<close> (outside query.go) combines
  the receiver with each argument in turn.
\<close>

definition FilterQuery_And :: "filter \<Rightarrow> filter list \<Rightarrow> filter" where
  "FilterQuery_And fq filters = foldl and_filter fq filters"

text \<open>
  Modelled from the spec: the method \<^verbatim>\<open>fq.Or(filters...)\<close> (outside query.go).
\<close>

definition FilterQuery_Or :: "filter \<Rightarrow> filter list \<Rightarrow> filter" where
  "FilterQuery_Or fq filters = foldl or_filter fq filters"

text \<open>
  Modelled from the spec: the free function \<^verbatim>\<open>And(filters...)\<close> (outside query.go); the
  identity is its value on no filters, so that \<^verbatim>\<open>And(None(), F) == F\<close> and
  \<^verbatim>\<open>And(And(a, b), c)\<close> is \<^verbatim>\<open>And(a, b, c)\<close>.
\<close>

definition And_filters :: "filter list \<Rightarrow> filter" where
  "And_filters filters = FilterQuery_And FNone filters"

text \<open>
  Modelled from the spec: \<^verbatim>\<open>FilterFragment(expr, args...)\<close> (outside query.go), the
  raw-text fragment with its positional arguments.
\<close>

definition FilterFragment :: "string \<Rightarrow> val list \<Rightarrow> filter" where
  "FilterFragment expr args = FFragment expr args"

text \<open>
  The meaning of a filter tree under a valuation \<open>\<rho>\<close> of its predicates and fragments: an
  "and" node holds when all its members hold, an "or" node when one does, and the identity
  restricts nothing.
\<close>

fun holds :: "(filter \<Rightarrow> bool) \<Rightarrow> filter \<Rightarrow> bool" where
  "holds \<rho> FNone = True"
| "holds \<rho> (FPred f opr v) = \<rho> (FPred f opr v)"
| "holds \<rho> (FFragment e args) = \<rho> (FFragment e args)"
| "holds \<rho> (FAnd fs) = (\<forall>f \<in> set fs. holds \<rho> f)"
| "holds \<rho> (FOr fs) = (\<exists>f \<in> set fs. holds \<rho> f)"

subsection \<open>The fragment types and the aggregate\<close>

text \<open>
  Modelled from the spec: \<^verbatim>\<open>SelectQuery\<close> is declared outside query.go, which reads its
  fields \<^verbatim>\<open>Fields\<close> (compared with \<^verbatim>\<open>nil\<close>) and \<^verbatim>\<open>OnlyDistinct\<close>.
\<close>

record select_query =
  Select_Fields :: "string list option"
  OnlyDistinct :: bool

text \<open>
  Modelled from the spec: \<^verbatim>\<open>JoinQuery\<close> is declared outside query.go: the join mode, the
  joined table, the two columns of the join condition, and a filter tree for a
  fragment-based join. query.go reads \<^verbatim>\<open>Mode\<close>, \<^verbatim>\<open>Table\<close>, \<^verbatim>\<open>From\<close> and \<^verbatim>\<open>To\<close>.
\<close>

record join_query =
  Join_Mode :: string
  Join_Table :: string
  Join_From :: string
  Join_To :: string
  Join_Filter :: filter

text \<open>
  Modelled from the spec: \<^verbatim>\<open>GroupQuery\<close> is declared outside query.go: the field-name
  sequence (compared with \<^verbatim>\<open>nil\<close> in query.go) and the having-filter tree.
\<close>

record group_query =
  Group_Fields :: "string list option"
  Group_Filter :: filter

text \<open>
  Modelled from the spec: \<^verbatim>\<open>SortQuery\<close> is declared outside query.go: a field name and
  a direction; query.go reads \<^verbatim>\<open>Field\<close> and asks \<^verbatim>\<open>Asc()\<close>.
\<close>

datatype direction = Ascending | Descending

record sort_query =
  Sort_Field :: string
  Sort_Direction :: direction

text \<open>
  Modelled from the spec: \<^verbatim>\<open>SortQuery.Asc\<close> (outside query.go), the direction test.
\<close>

definition Asc :: "sort_query \<Rightarrow> bool" where
  "Asc sq = (Sort_Direction sq = Ascending)"

text \<open>
  Modelled from the spec: \<^verbatim>\<open>NewSortAsc\<close> and \<^verbatim>\<open>NewSortDesc\<close> (outside query.go), the
  sort specs of a field in either direction.
\<close>

definition NewSortAsc :: "string \<Rightarrow> sort_query" where
  "NewSortAsc field = \<lparr>Sort_Field = field, Sort_Direction = Ascending\<rparr>"

definition NewSortDesc :: "string \<Rightarrow> sort_query" where
  "NewSortDesc field = \<lparr>Sort_Field = field, Sort_Direction = Descending\<rparr>"

text \<open>
  Modelled from the spec: \<^verbatim>\<open>SQLQuery\<close> is declared outside query.go, which reads only its
  \<^verbatim>\<open>Statement\<close>; the positional arguments are carried as for raw fragments.
\<close>

record sql_query =
  Statement :: string
  Values :: "val list"

text \<open>The struct \<^verbatim>\<open>Query\<close>; \<open>empty_mark\<close> is its unexported field \<^verbatim>\<open>empty\<close>.\<close>

record query =
  empty_mark :: bool
  Table :: string
  SelectQuery :: select_query
  JoinQuery :: "join_query list"
  WhereQuery :: filter
  GroupQuery :: group_query
  SortQuery :: "sort_query list"
  OffsetQuery :: int
  LimitQuery :: int
  LockQuery :: string
  SQLQuery :: sql_query
  UnscopedQuery :: bool
  ReloadQuery :: bool
  CascadeQuery :: bool
  PreloadQuery :: "string list"
  UsePrimaryDb :: bool

text \<open>
  Go's zero value of \<^verbatim>\<open>Query\<close>: every field zero. Modelled from the spec: the zero
  value of \<^verbatim>\<open>FilterQuery\<close> (declared outside query.go) is the identity, the filter that
  a fresh query carries.
\<close>

definition zero_query :: query where
  "zero_query =
     \<lparr>empty_mark = False, Table = [],
      SelectQuery = \<lparr>Select_Fields = None, OnlyDistinct = False\<rparr>,
      JoinQuery = [], WhereQuery = FNone,
      GroupQuery = \<lparr>Group_Fields = None, Group_Filter = FNone\<rparr>,
      SortQuery = [], OffsetQuery = 0, LimitQuery = 0, LockQuery = [],
      SQLQuery = \<lparr>Statement = [], Values = []\<rparr>,
      UnscopedQuery = False, ReloadQuery = False, CascadeQuery = False,
      PreloadQuery = [], UsePrimaryDb = False\<rparr>"

definition newQuery :: query where
  "newQuery = zero_query\<lparr>CascadeQuery := True\<rparr>"

subsection \<open>The Build methods of the fragments\<close>

text \<open>\<^verbatim>\<open>Query.Build\<close>: full overwrite of an aggregate marked empty, manual merge otherwise.\<close>

definition Query_Build :: "query \<Rightarrow> query \<Rightarrow> query" where
  "Query_Build q query =
     (if empty_mark query then q
      else query
        \<lparr>Table := (if Table q \<noteq> [] then Table q else Table query),
         SelectQuery :=
           (if Select_Fields (SelectQuery q) \<noteq> None then SelectQuery q else SelectQuery query),
         JoinQuery := JoinQuery query @ JoinQuery q,
         WhereQuery :=
           (if \<not> FilterQuery_None (WhereQuery q)
            then FilterQuery_And (WhereQuery query) [WhereQuery q]
            else WhereQuery query),
         GroupQuery :=
           (if Group_Fields (GroupQuery q) \<noteq> None then GroupQuery q else GroupQuery query),
         SortQuery := SortQuery query @ SortQuery q,
         OffsetQuery := (if OffsetQuery q \<noteq> 0 then OffsetQuery q else OffsetQuery query),
         LimitQuery := (if LimitQuery q \<noteq> 0 then LimitQuery q else LimitQuery query),
         LockQuery := (if LockQuery q \<noteq> [] then LockQuery q else LockQuery query),
         ReloadQuery := (ReloadQuery query \<or> ReloadQuery q),
         CascadeQuery := (CascadeQuery query \<or> CascadeQuery q),
         UsePrimaryDb := (UsePrimaryDb query \<or> UsePrimaryDb q)\<rparr>)"

definition Offset_Build :: "int \<Rightarrow> query \<Rightarrow> query" where
  "Offset_Build o' query = query\<lparr>OffsetQuery := o'\<rparr>"

definition Limit_Build :: "int \<Rightarrow> query \<Rightarrow> query" where
  "Limit_Build l query = query\<lparr>LimitQuery := l\<rparr>"

definition Lock_Build :: "string \<Rightarrow> query \<Rightarrow> query" where
  "Lock_Build l query = query\<lparr>LockQuery := l\<rparr>"

definition Unscoped_Build :: "bool \<Rightarrow> query \<Rightarrow> query" where
  "Unscoped_Build u query = query\<lparr>UnscopedQuery := u\<rparr>"

definition Preload_Build :: "string \<Rightarrow> query \<Rightarrow> query" where
  "Preload_Build p query = query\<lparr>PreloadQuery := PreloadQuery query @ [p]\<rparr>"

text \<open>
  Modelled from the spec: \<^verbatim>\<open>JoinQuery.Build\<close> (outside query.go) applies its directive
  onto the aggregate; join sequences are append-only.
\<close>

definition JoinQuery_Build :: "join_query \<Rightarrow> query \<Rightarrow> query" where
  "JoinQuery_Build jq query = query\<lparr>JoinQuery := JoinQuery query @ [jq]\<rparr>"

text \<open>
  Modelled from the spec: \<^verbatim>\<open>FilterQuery.Build\<close> (outside query.go); the filter tree is
  combined by logical AND, never replaced.
\<close>

definition FilterQuery_Build :: "filter \<Rightarrow> query \<Rightarrow> query" where
  "FilterQuery_Build fq query = query\<lparr>WhereQuery := FilterQuery_And (WhereQuery query) [fq]\<rparr>"

text \<open>
  Modelled from the spec: \<^verbatim>\<open>GroupQuery.Build\<close> (outside query.go); a group spec is a
  whole-value replacement.
\<close>

definition GroupQuery_Build :: "group_query \<Rightarrow> query \<Rightarrow> query" where
  "GroupQuery_Build gq query = query\<lparr>GroupQuery := gq\<rparr>"

text \<open>
  Modelled from the spec: \<^verbatim>\<open>SortQuery.Build\<close> (outside query.go); sort sequences are
  append-only.
\<close>

definition SortQuery_Build :: "sort_query \<Rightarrow> query \<Rightarrow> query" where
  "SortQuery_Build sq query = query\<lparr>SortQuery := SortQuery query @ [sq]\<rparr>"

text \<open>
  Modelled from the spec: \<^verbatim>\<open>Reload.Build\<close> (outside query.go) sets the reload flag.
\<close>

definition Reload_Build :: "bool \<Rightarrow> query \<Rightarrow> query" where
  "Reload_Build r query = query\<lparr>ReloadQuery := r\<rparr>"

text \<open>
  Modelled from the spec: \<^verbatim>\<open>SQLQuery.Build\<close> (outside query.go) sets the raw query.
\<close>

definition SQLQuery_Build :: "sql_query \<Rightarrow> query \<Rightarrow> query" where
  "SQLQuery_Build sq query = query\<lparr>SQLQuery := sq\<rparr>"

text \<open>
  Modelled from the spec: \<^verbatim>\<open>Cascade.Build\<close> (outside query.go) sets the cascade flag.
\<close>

definition Cascade_Build :: "bool \<Rightarrow> query \<Rightarrow> query" where
  "Cascade_Build c query = query\<lparr>CascadeQuery := c\<rparr>"

subsection \<open>The top-level fold\<close>

text \<open>
  A value of the interface \<^verbatim>\<open>Querier\<close>: one constructor for each type the switch of
  \<^verbatim>\<open>Build\<close> names, and \<open>QOther\<close> for a value of any other type (a nil interface, a
  \<^verbatim>\<open>*Query\<close>, a type of the caller's), carrying that type's own \<^verbatim>\<open>Build\<close> method.
\<close>

datatype querier =
    QQuery query
  | QJoin join_query
  | QFilter filter
  | QGroup group_query
  | QSort sort_query
  | QOffset int
  | QLimit int
  | QLock string
  | QUnscoped bool
  | QReload bool
  | QSQL sql_query
  | QPreload string
  | QCascade bool
  | QOther "query \<Rightarrow> query"

text \<open>The type assertion \<^verbatim>\<open>_, ok = querier.(Query)\<close>.\<close>

fun is_Query :: "querier \<Rightarrow> bool" where
  "is_Query (QQuery q) = True"
| "is_Query _ = False"

text \<open>The body of the loop of \<^verbatim>\<open>Build\<close>: the type switch, which has no default case.\<close>

fun Build_switch :: "querier \<Rightarrow> query \<Rightarrow> query" where
  "Build_switch (QQuery q) query = Query_Build q query"
| "Build_switch (QJoin q) query = JoinQuery_Build q query"
| "Build_switch (QFilter q) query = FilterQuery_Build q query"
| "Build_switch (QGroup q) query = GroupQuery_Build q query"
| "Build_switch (QSort q) query = SortQuery_Build q query"
| "Build_switch (QOffset q) query = Offset_Build q query"
| "Build_switch (QLimit q) query = Limit_Build q query"
| "Build_switch (QLock q) query = Lock_Build q query"
| "Build_switch (QUnscoped q) query = Unscoped_Build q query"
| "Build_switch (QReload q) query = Reload_Build q query"
| "Build_switch (QSQL q) query = SQLQuery_Build q query"
| "Build_switch (QPreload q) query = Preload_Build q query"
| "Build_switch (QCascade q) query = Cascade_Build q query"
| "Build_switch (QOther b) query = query"

text \<open>The loop \<^verbatim>\<open>for _, querier := range queriers\<close>.\<close>

fun Build_loop :: "querier list \<Rightarrow> query \<Rightarrow> query" where
  "Build_loop [] query = query"
| "Build_loop (querier # queriers) query = Build_loop queriers (Build_switch querier query)"

text \<open>The aggregate before the loop: \<^verbatim>\<open>newQuery()\<close>, marked empty when the first
  fragment is a \<^verbatim>\<open>Query\<close>.\<close>

fun Build_start :: "querier list \<Rightarrow> query" where
  "Build_start [] = newQuery"
| "Build_start (querier # queriers) = newQuery\<lparr>empty_mark := is_Query querier\<rparr>"

text \<open>The default table, set after the loop.\<close>

definition Build_finish :: "string \<Rightarrow> query \<Rightarrow> query" where
  "Build_finish table query = (if Table query = [] then query\<lparr>Table := table\<rparr> else query)"

definition Build :: "string \<Rightarrow> querier list \<Rightarrow> query" where
  "Build table queriers = Build_finish table (Build_loop queriers (Build_start queriers))"


subsection \<open>Constructors and chain methods\<close>

text \<open>
  Modelled from the spec: \<^verbatim>\<open>NewJoinWith\<close> (outside query.go) builds a column-based join.
\<close>

definition NewJoinWith :: "string \<Rightarrow> string \<Rightarrow> string \<Rightarrow> string \<Rightarrow> filter list \<Rightarrow> join_query" where
  "NewJoinWith mode table from to filters =
     \<lparr>Join_Mode = mode, Join_Table = table, Join_From = from, Join_To = to,
      Join_Filter = And_filters filters\<rparr>"


text \<open>The free constructors; each starts from \<^verbatim>\<open>newQuery()\<close>. A variadic parameter
  that is stored as it is (\<^verbatim>\<open>fields ...string\<close>, here \<open>flds\<close>) is \<open>None\<close> when no argument is passed.\<close>

definition Select :: "string list option \<Rightarrow> query" where
  "Select flds = newQuery\<lparr>SelectQuery := (SelectQuery newQuery)\<lparr>Select_Fields := flds\<rparr>\<rparr>"

definition From :: "string \<Rightarrow> query" where
  "From table = newQuery\<lparr>Table := table\<rparr>"

definition JoinWith :: "string \<Rightarrow> string \<Rightarrow> string \<Rightarrow> string \<Rightarrow> filter list \<Rightarrow> query" where
  "JoinWith mode table from to filters =
     newQuery\<lparr>JoinQuery := [NewJoinWith mode table from to filters]\<rparr>"




definition Where :: "filter list \<Rightarrow> query" where
  "Where filters = newQuery\<lparr>WhereQuery := And_filters filters\<rparr>"

definition UsePrimary :: query where
  "UsePrimary = newQuery\<lparr>UsePrimaryDb := True\<rparr>"

text \<open>The chain methods: the receiver is a value, the result the updated copy.\<close>

definition Query_From :: "query \<Rightarrow> string \<Rightarrow> query" where
  "Query_From q table = q\<lparr>Table := table\<rparr>"

definition Query_Distinct :: "query \<Rightarrow> query" where
  "Query_Distinct q = q\<lparr>SelectQuery := (SelectQuery q)\<lparr>OnlyDistinct := True\<rparr>\<rparr>"

definition Query_Where :: "query \<Rightarrow> filter list \<Rightarrow> query" where
  "Query_Where q filters = q\<lparr>WhereQuery := FilterQuery_And (WhereQuery q) filters\<rparr>"

definition Query_Wheref :: "query \<Rightarrow> string \<Rightarrow> val list \<Rightarrow> query" where
  "Query_Wheref q expr args =
     q\<lparr>WhereQuery := FilterQuery_And (WhereQuery q) [FilterFragment expr args]\<rparr>"

definition Query_OrWhere :: "query \<Rightarrow> filter list \<Rightarrow> query" where
  "Query_OrWhere q filters = q\<lparr>WhereQuery := FilterQuery_Or (WhereQuery q) [And_filters filters]\<rparr>"

definition Query_OrWheref :: "query \<Rightarrow> string \<Rightarrow> val list \<Rightarrow> query" where
  "Query_OrWheref q expr args =
     q\<lparr>WhereQuery := FilterQuery_Or (WhereQuery q) [FilterFragment expr args]\<rparr>"

definition Query_Group :: "query \<Rightarrow> string list option \<Rightarrow> query" where
  "Query_Group q flds = q\<lparr>GroupQuery := (GroupQuery q)\<lparr>Group_Fields := flds\<rparr>\<rparr>"

definition Query_Having :: "query \<Rightarrow> filter list \<Rightarrow> query" where
  "Query_Having q filters =
     q\<lparr>GroupQuery := (GroupQuery q)\<lparr>Group_Filter := FilterQuery_And (Group_Filter (GroupQuery q)) filters\<rparr>\<rparr>"

definition Query_SortAsc :: "query \<Rightarrow> string list \<Rightarrow> query" where
  "Query_SortAsc q flds = q\<lparr>SortQuery := SortQuery q @ map NewSortAsc flds\<rparr>"

definition Query_SortDesc :: "query \<Rightarrow> string list \<Rightarrow> query" where
  "Query_SortDesc q flds = q\<lparr>SortQuery := SortQuery q @ map NewSortDesc flds\<rparr>"

definition Query_Sort :: "query \<Rightarrow> string list \<Rightarrow> query" where
  "Query_Sort q flds = Query_SortAsc q flds"

definition Query_Offset :: "query \<Rightarrow> int \<Rightarrow> query" where
  "Query_Offset q offset = q\<lparr>OffsetQuery := offset\<rparr>"

definition Query_Limit :: "query \<Rightarrow> int \<Rightarrow> query" where
  "Query_Limit q limit = q\<lparr>LimitQuery := limit\<rparr>"

definition Query_Lock :: "query \<Rightarrow> string \<Rightarrow> query" where
  "Query_Lock q lock = q\<lparr>LockQuery := lock\<rparr>"

definition Query_Unscoped :: "query \<Rightarrow> query" where
  "Query_Unscoped q = q\<lparr>UnscopedQuery := True\<rparr>"

definition Query_Reload :: "query \<Rightarrow> query" where
  "Query_Reload q = q\<lparr>ReloadQuery := True\<rparr>"

definition Query_Cascade :: "query \<Rightarrow> bool \<Rightarrow> query" where
  "Query_Cascade q c = q\<lparr>CascadeQuery := c\<rparr>"

definition Query_Preload :: "query \<Rightarrow> string \<Rightarrow> query" where
  "Query_Preload q field = q\<lparr>PreloadQuery := PreloadQuery q @ [field]\<rparr>"

definition Query_UsePrimary :: "query \<Rightarrow> query" where
  "Query_UsePrimary q = q\<lparr>UsePrimaryDb := True\<rparr>"

subsection \<open>Rendering\<close>

text \<open>The library calls of \<^verbatim>\<open>Query.String\<close>: \<^verbatim>\<open>len\<close> of a slice that may be nil,
  \<^verbatim>\<open>strings.Join\<close>, and \<^verbatim>\<open>strconv.Itoa\<close> (decimal, with a sign for negative numbers).\<close>

fun slice :: "'a list option \<Rightarrow> 'a list" where
  "slice None = []"
| "slice (Some xs) = xs"

fun strings_Join :: "string list \<Rightarrow> string \<Rightarrow> string" where
  "strings_Join [] sep = []"
| "strings_Join [x] sep = x"
| "strings_Join (x # y # ys) sep = x @ sep @ strings_Join (y # ys) sep"

fun digits :: "nat \<Rightarrow> string" where
  "digits n =
     (if n < 10 then [''0123456789'' ! n]
      else digits (n div 10) @ [''0123456789'' ! (n mod 10)])"

declare digits.simps [simp del]

definition Itoa :: "int \<Rightarrow> string" where
  "Itoa i = (if i < 0 then ''-'' @ digits (nat (- i)) else digits (nat i))"

text \<open>The two loops of \<^verbatim>\<open>Query.String\<close>, each appending to the builder.\<close>

fun write_joins :: "join_query list \<Rightarrow> string \<Rightarrow> string" where
  "write_joins [] builder = builder"
| "write_joins (jq # jqs) builder =
     write_joins jqs
       (builder @ ''.JoinWith(\"'' @ Join_Mode jq @ ''\", \"'' @ Join_Table jq @ ''\", \"''
          @ Join_From jq @ ''\", \"'' @ Join_To jq @ ''\")'')"

fun write_sorts :: "sort_query list \<Rightarrow> string \<Rightarrow> string" where
  "write_sorts [] builder = builder"
| "write_sorts (sq # sqs) builder =
     write_sorts sqs
       ((if Asc sq then builder @ ''.SortAsc(\"'' else builder @ ''.SortDesc(\"'')
          @ Sort_Field sq @ ''\")'')"

text \<open>
  \<^verbatim>\<open>Query.String\<close>. The renderings \<^verbatim>\<open>SQLQuery.String\<close> and \<^verbatim>\<open>FilterQuery.String\<close> are
  defined outside query.go and are the parameters \<open>sql_String\<close> and \<open>filter_String\<close>. The
  builder is the string written so far.
\<close>

definition Query_String :: "(sql_query \<Rightarrow> string) \<Rightarrow> (filter \<Rightarrow> string) \<Rightarrow> query \<Rightarrow> string" where
  "Query_String sql_String filter_String q =
     (if Statement (SQLQuery q) \<noteq> [] then sql_String (SQLQuery q)
      else
        let builder = ''rel'';
            builder = (if UsePrimaryDb q then builder @ ''.UsePrimary()'' else builder);
            builder = (if Table q \<noteq> [] then builder @ ''.From(\"'' @ Table q @ ''\")''
                       else builder);
            builder =
              (if length (slice (Select_Fields (SelectQuery q))) \<noteq> 0
               then builder @ ''.Select(\"''
                      @ strings_Join (slice (Select_Fields (SelectQuery q))) ''\", \"'' @ ''\")''
               else builder);
            builder = (if OnlyDistinct (SelectQuery q) then builder @ ''.Distinct()''
                       else builder);
            builder = write_joins (JoinQuery q) builder;
            builder =
              (if \<not> FilterQuery_None (WhereQuery q)
               then builder @ ''.Where('' @ filter_String (WhereQuery q) @ '')''
               else builder);
            builder =
              (if length (slice (Group_Fields (GroupQuery q))) \<noteq> 0
               then
                 let builder = builder @ ''.Group(\"''
                        @ strings_Join (slice (Group_Fields (GroupQuery q))) ''\", \"'' @ ''\")''
                 in if \<not> FilterQuery_None (Group_Filter (GroupQuery q))
                    then builder @ ''.Having('' @ filter_String (Group_Filter (GroupQuery q)) @ '')''
                    else builder
               else builder);
            builder = write_sorts (SortQuery q) builder;
            builder = (if LimitQuery q > 0 then builder @ ''.Limit('' @ Itoa (LimitQuery q) @ '')''
                       else builder);
            builder = (if OffsetQuery q > 0 then builder @ ''.Offset('' @ Itoa (OffsetQuery q) @ '')''
                       else builder);
            builder = (if LockQuery q \<noteq> [] then builder @ ''.Lock(\"'' @ LockQuery q @ ''\")''
                       else builder);
            builder = (if UnscopedQuery q then builder @ ''.Unscoped()'' else builder);
            builder = (if ReloadQuery q then builder @ ''.Reload()'' else builder);
            builder = (if \<not> CascadeQuery q then builder @ ''.Cascade(false)'' else builder);
            builder =
              (if length (PreloadQuery q) \<noteq> 0
               then builder @ ''.Preload(\"'' @ strings_Join (PreloadQuery q) ''\", \"'' @ ''\")''
               else builder)
        in if builder \<noteq> ''rel'' then builder else [])"

subsection \<open>The rendering as the specification words it\<close>

text \<open>
  The specification gives the rendering as a sequence of clauses in a fixed order, each
  present under its own condition: one list of clause texts, joined after the root token.
  \<open>spec_clauses\<close> and \<open>spec_String\<close> follow those words; they are compared with
  \<open>Query_String\<close> below.
\<close>

definition clause_if :: "bool \<Rightarrow> string \<Rightarrow> string list" where
  "clause_if c s = (if c then [s] else [])"

definition JoinWith_clause :: "join_query \<Rightarrow> string" where
  "JoinWith_clause jq =
     ''.JoinWith(\"'' @ Join_Mode jq @ ''\", \"'' @ Join_Table jq @ ''\", \"'' @ Join_From jq
       @ ''\", \"'' @ Join_To jq @ ''\")''"

definition Sort_clause :: "sort_query \<Rightarrow> string" where
  "Sort_clause sq =
     (if Asc sq then ''.SortAsc(\"'' else ''.SortDesc(\"'') @ Sort_Field sq @ ''\")''"

definition spec_clauses :: "(filter \<Rightarrow> string) \<Rightarrow> query \<Rightarrow> string list" where
  "spec_clauses filter_String q =
     clause_if (UsePrimaryDb q) ''.UsePrimary()'' @
     clause_if (Table q \<noteq> []) (''.From(\"'' @ Table q @ ''\")'') @
     clause_if (slice (Select_Fields (SelectQuery q)) \<noteq> [])
       (''.Select(\"'' @ strings_Join (slice (Select_Fields (SelectQuery q))) ''\", \"'' @ ''\")'') @
     clause_if (OnlyDistinct (SelectQuery q)) ''.Distinct()'' @
     map JoinWith_clause (JoinQuery q) @
     clause_if (\<not> FilterQuery_None (WhereQuery q))
       (''.Where('' @ filter_String (WhereQuery q) @ '')'') @
     (if slice (Group_Fields (GroupQuery q)) \<noteq> []
      then [''.Group(\"'' @ strings_Join (slice (Group_Fields (GroupQuery q))) ''\", \"'' @ ''\")'']
           @ clause_if (\<not> FilterQuery_None (Group_Filter (GroupQuery q)))
               (''.Having('' @ filter_String (Group_Filter (GroupQuery q)) @ '')'')
      else []) @
     map Sort_clause (SortQuery q) @
     clause_if (0 < LimitQuery q) (''.Limit('' @ Itoa (LimitQuery q) @ '')'') @
     clause_if (0 < OffsetQuery q) (''.Offset('' @ Itoa (OffsetQuery q) @ '')'') @
     clause_if (LockQuery q \<noteq> []) (''.Lock(\"'' @ LockQuery q @ ''\")'') @
     clause_if (UnscopedQuery q) ''.Unscoped()'' @
     clause_if (ReloadQuery q) ''.Reload()'' @
     clause_if (\<not> CascadeQuery q) ''.Cascade(false)'' @
     clause_if (PreloadQuery q \<noteq> [])
       (''.Preload(\"'' @ strings_Join (PreloadQuery q) ''\", \"'' @ ''\")'')"

definition spec_String :: "(filter \<Rightarrow> string) \<Rightarrow> query \<Rightarrow> string" where
  "spec_String filter_String q =
     (if spec_clauses filter_String q = [] then []
      else ''rel'' @ concat (spec_clauses filter_String q))"

subsection \<open>Renderings for concrete queries\<close>

text \<open>
  The theorems about \<open>Query_String\<close> hold for every pair of renderings. To evaluate it on a
  concrete query the two parameters are instantiated: a raw SQL query by its statement
  text, a filter tree by \<open>field op value\<close> for a predicate, the raw text for a fragment and
  a parenthesised list for a combinator.
\<close>

definition sql_text :: "sql_query \<Rightarrow> string" where
  "sql_text sq = Statement sq"

fun val_text :: "val \<Rightarrow> string" where
  "val_text VNil = ''nil''"
| "val_text (VBool b) = (if b then ''true'' else ''false'')"
| "val_text (VInt i) = Itoa i"
| "val_text (VStr s) = ''\"'' @ s @ ''\"''"

fun filter_text :: "filter \<Rightarrow> string" where
  "filter_text FNone = []"
| "filter_text (FPred f opr v) = f @ '' '' @ opr @ '' '' @ val_text v"
| "filter_text (FFragment e args) = e"
| "filter_text (FAnd fs) = ''('' @ strings_Join (map filter_text fs) '' AND '' @ '')''"
| "filter_text (FOr fs) = ''('' @ strings_Join (map filter_text fs) '' OR '' @ '')''"

section \<open>Properties\<close>

subsection \<open>The fold and the merge\<close>

lemma Build_loop_append: "Build_loop (xs @ ys) agg = Build_loop ys (Build_loop xs agg)"
  by (induction xs arbitrary: agg) simp_all

text \<open>
  The manual merge of \<^verbatim>\<open>Query.Build\<close> on the three sequences of the aggregate: joins and
  sorts are appended in order, the preload sequence is the target's own.
\<close>

lemma Query_Build_merge_sequences:
  assumes "\<not> empty_mark agg"
  shows "JoinQuery (Query_Build q agg) = JoinQuery agg @ JoinQuery q"
    and "SortQuery (Query_Build q agg) = SortQuery agg @ SortQuery q"
    and "PreloadQuery (Query_Build q agg) = PreloadQuery agg"
  using assms by (simp_all add: Query_Build_def)

text \<open>
  C2. Merging a \<^verbatim>\<open>Query\<close> fragment into a non-empty aggregate should append the
  fragment's join, sort and preload sequences to the aggregate's. The merge appends joins
  and sorts but has no line for the preload sequence: merging
  \<^verbatim>\<open>From("todos").Preload("owner")\<close> into \<^verbatim>\<open>From("users").Preload("address")\<close> leaves
  the preloads \<^verbatim>\<open>["address"]\<close>, where the claim gives \<^verbatim>\<open>["address", "owner"]\<close>; the same
  fragment folded after \<^verbatim>\<open>Limit(1)\<close> by \<^verbatim>\<open>Build\<close> loses its preload altogether.
\<close>

theorem Query_Build_drops_preload:
  "\<not> empty_mark (Query_Preload (From ''users'') ''address'') \<and>
   PreloadQuery (Query_Preload (From ''users'') ''address'') = [''address''] \<and>
   PreloadQuery (Query_Preload (From ''todos'') ''owner'') = [''owner''] \<and>
   PreloadQuery (Query_Build (Query_Preload (From ''todos'') ''owner'')
                   (Query_Preload (From ''users'') ''address'')) = [''address''] \<and>
   PreloadQuery (Build ''todos'' [QLimit 1, QQuery (Query_Preload (From ''todos'') ''owner'')]) = []"
  by (simp add: Build_def Build_finish_def Limit_Build_def Query_Build_def Query_Preload_def
        From_def newQuery_def zero_query_def)

text \<open>
  C4. When the first fragment is a full \<^verbatim>\<open>Query\<close>, the fold marks the fresh aggregate
  as empty, folding that fragment replaces the aggregate by the fragment itself (every
  field, the mark included), and the remaining fragments are folded onto it.
\<close>

theorem Build_first_Query_overwrites:
  "Build_start (QQuery q # rest) = newQuery\<lparr>empty_mark := True\<rparr> \<and>
   Build_switch (QQuery q) (Build_start (QQuery q # rest)) = q \<and>
   Build table (QQuery q # rest) = Build_finish table (Build_loop rest q)"
  by (simp add: Build_def Query_Build_def)

text \<open>
  C6 as stated fails: a fragment whose select fields are an empty but non-nil slice
  (\<^verbatim>\<open>Select([]string{}...)\<close>) replaces the aggregate's select.
\<close>

theorem Query_Build_select_empty_slice_counterexample:
  "slice (Select_Fields (SelectQuery (Select (Some [])))) = [] \<and>
   \<not> empty_mark (Select (Some [''y''])) \<and>
   SelectQuery (Query_Build (Select (Some [])) (Select (Some [''y''])))
     \<noteq> SelectQuery (Select (Some [''y'']))"
  by (simp add: Query_Build_def Select_def newQuery_def zero_query_def)

text \<open>
  C6, amended. Merging a \<^verbatim>\<open>Query\<close> fragment into a non-empty aggregate replaces the
  aggregate's select (group) spec by the fragment's, whole, when the fragment's field
  slice is not nil, and leaves it unchanged when it is nil. So a non-empty field list
  always replaces (the result's fields are the fragment's, never a union or an append),
  and merging \<^verbatim>\<open>Select("x")\<close> into \<^verbatim>\<open>Select("y")\<close> selects \<^verbatim>\<open>["x"]\<close>.
\<close>

theorem Query_Build_select_group_replace:
  "\<not> empty_mark agg \<Longrightarrow>
     SelectQuery (Query_Build q agg) =
       (if Select_Fields (SelectQuery q) = None then SelectQuery agg else SelectQuery q) \<and>
     GroupQuery (Query_Build q agg) =
       (if Group_Fields (GroupQuery q) = None then GroupQuery agg else GroupQuery q) \<and>
     Select_Fields (SelectQuery (Query_Build (Select (Some [''x''])) (Select (Some [''y'']))))
       = Some [''x'']"
  by (simp add: Query_Build_def Select_def newQuery_def zero_query_def)

theorem Query_Build_select_group_replace_witness:
  "\<not> empty_mark (Select (Some [''y''])) \<and>
   SelectQuery (Query_Build (Select (Some [''x''])) (Select (Some [''y''])))
     = \<lparr>Select_Fields = Some [''x''], OnlyDistinct = False\<rparr> \<and>
   GroupQuery (Query_Build (Select (Some [''x''])) (Select (Some [''y''])))
     = \<lparr>Group_Fields = None, Group_Filter = FNone\<rparr>"
proof -
  have ne: "\<not> empty_mark (Select (Some [''y'']))"
    by (simp add: Select_def newQuery_def zero_query_def)
  show ?thesis
    using ne Query_Build_select_group_replace [OF ne, of "Select (Some [''x''])"]
    by (simp add: Select_def newQuery_def zero_query_def)
qed

text \<open>
  C8. The fold is a total function of its inputs: \<open>Build\<close> is defined by structural
  recursion over the fragment list and every case of the switch returns an aggregate. A
  fragment of a type the switch does not name is skipped: the step returns the aggregate
  it was given, a fold starting with such a fragment starts from \<^verbatim>\<open>newQuery()\<close>, and
  dropping it from any later position does not change the result.
\<close>

theorem Build_skips_unrecognized:
  "Build_switch (QOther b) agg = agg \<and>
   Build_start (QOther b # ys) = newQuery \<and>
   Build_loop (xs @ QOther b # ys) agg = Build_loop (xs @ ys) agg \<and>
   Build table (x # xs @ QOther b # ys) = Build table (x # xs @ ys) \<and>
   Build table (QOther b # ys) = Build_finish table (Build_loop ys newQuery)"
  by (simp add: Build_def Build_loop_append newQuery_def zero_query_def)

text \<open>
  C9. The manual merge of \<^verbatim>\<open>Query.Build\<close> never modifies the aggregate's unscoped flag,
  whatever the fragment's flag is; \<^verbatim>\<open>Unscoped.Build\<close> sets it.
\<close>

theorem Query_Build_keeps_unscoped:
  "(\<not> empty_mark agg \<longrightarrow> UnscopedQuery (Query_Build q agg) = UnscopedQuery agg) \<and>
   UnscopedQuery (Unscoped_Build u agg) = u"
  by (simp add: Query_Build_def Unscoped_Build_def)

theorem Query_Build_keeps_unscoped_witness:
  "\<not> empty_mark (From ''users'') \<and>
   UnscopedQuery (Query_Unscoped (From ''todos'')) \<and>
   \<not> UnscopedQuery (Query_Build (Query_Unscoped (From ''todos'')) (From ''users'')) \<and>
   UnscopedQuery (Unscoped_Build True (From ''users''))"
  using Query_Build_keeps_unscoped [of "From ''users''" "Query_Unscoped (From ''todos'')" True]
  by (simp add: From_def Query_Unscoped_def newQuery_def zero_query_def)

subsection \<open>The rendering\<close>

lemma write_joins_concat: "write_joins jqs b = b @ concat (map JoinWith_clause jqs)"
  by (induction jqs arbitrary: b) (simp_all add: JoinWith_clause_def)

lemma write_sorts_concat: "write_sorts sqs b = b @ concat (map Sort_clause sqs)"
  by (induction sqs arbitrary: b) (simp_all add: Sort_clause_def)

lemma if_write: "(if c then b @ x else b) = b @ concat (clause_if c x)"
  by (simp add: clause_if_def)

lemma if_write_nested:
  "(if c then (b @ g) @ concat (clause_if h x) else b)
     = b @ concat (if c then [g] @ clause_if h x else [])"
  by (simp add: clause_if_def)

lemma spec_clauses_nonempty: "[] \<notin> set (spec_clauses f q)"
  by (auto simp add: spec_clauses_def clause_if_def JoinWith_clause_def Sort_clause_def)

text \<open>The builder of \<open>Query_String\<close> holds the root token followed by the clauses.\<close>

lemma Query_String_builder:
  "Statement (SQLQuery q) = [] \<Longrightarrow>
   Query_String s f q =
     (if ''rel'' @ concat (spec_clauses f q) \<noteq> ''rel''
      then ''rel'' @ concat (spec_clauses f q) else [])"
  unfolding Query_String_def spec_clauses_def
  apply (simp only: if_write write_joins_concat write_sorts_concat Let_def)
  apply (simp only: if_write_nested)
  apply (simp only: append_assoc concat_append length_0_conv)
  apply (simp only: simp_thms if_False)
  done

lemma Query_String_clauses:
  "Statement (SQLQuery q) = [] \<Longrightarrow> Query_String s f q = spec_String f q"
  using spec_clauses_nonempty [of f q]
  by (cases "spec_clauses f q") (auto simp add: Query_String_builder spec_String_def)

lemma Query_String_raw:
  "Statement (SQLQuery q) \<noteq> [] \<Longrightarrow> Query_String s f q = s (SQLQuery q)"
  by (simp add: Query_String_def)

lemma Build_no_fragments: "Build table [] = zero_query\<lparr>Table := table, CascadeQuery := True\<rparr>"
  by (simp add: Build_def Build_finish_def newQuery_def zero_query_def)

lemma Statement_Build_nil: "Statement (SQLQuery (Build table [])) = []"
  by (simp add: Build_no_fragments zero_query_def)

lemma spec_clauses_Build_nil:
  "spec_clauses f (Build table []) = clause_if (table \<noteq> []) (''.From(\"'' @ table @ ''\")'')"
  by (simp add: Build_no_fragments spec_clauses_def zero_query_def clause_if_def)

lemma Query_String_Build_nil:
  "Query_String s f (Build table []) =
     (if table = [] then [] else ''rel.From(\"'' @ table @ ''\")'')"
  by (simp add: Query_String_clauses Statement_Build_nil spec_String_def spec_clauses_Build_nil
        clause_if_def)

text \<open>
  C3 as stated fails: the table \<^verbatim>\<open>"todos"\<close> is not empty, so the rendering of
  \<^verbatim>\<open>Build("todos")\<close> has its \<^verbatim>\<open>From\<close> clause and is not the empty string.
\<close>

theorem Build_todos_String_counterexample:
  "Query_String sql_text filter_text (Build ''todos'' []) \<noteq> []"
  by (simp add: Query_String_Build_nil)

text \<open>
  C3, amended. \<^verbatim>\<open>Build("todos")\<close> with no fragments returns the query whose table is
  \<^verbatim>\<open>"todos"\<close>, whose cascade flag is true and whose other fields are all zero; its
  rendering is \<^verbatim>\<open>rel.From("todos")\<close>. In general the rendering of \<^verbatim>\<open>Build(table)\<close> is the
  \<^verbatim>\<open>From\<close> clause of the table, and the empty string only for the empty table.
\<close>

theorem Build_no_fragments_String:
  "Build ''todos'' [] = zero_query\<lparr>Table := ''todos'', CascadeQuery := True\<rparr> \<and>
   Query_String s f (Build ''todos'' []) = ''rel.From(\"todos\")'' \<and>
   Query_String s f (Build table []) =
     (if table = [] then [] else ''rel.From(\"'' @ table @ ''\")'')"
  using Build_no_fragments [of "''todos''"] Query_String_Build_nil [of s f "''todos''"]
    Query_String_Build_nil [of s f table]
  by simp

text \<open>
  C5 as stated fails: a query that carries a raw SQL statement renders as that raw query,
  whatever its clauses are; with the table \<^verbatim>\<open>"todos"\<close> the clause sequence is the
  \<^verbatim>\<open>From\<close> clause, the rendering is not. Two such queries on different tables have
  the same rendering and different clause sequences, so no rendering of the raw query
  makes both agree.
\<close>

theorem Query_String_clause_order_counterexample:
  "Query_String sql_text filter_text
     ((From ''todos'')\<lparr>SQLQuery := \<lparr>Statement = ''SELECT 1'', Values = []\<rparr>\<rparr>) = ''SELECT 1'' \<and>
   spec_String filter_text
     ((From ''todos'')\<lparr>SQLQuery := \<lparr>Statement = ''SELECT 1'', Values = []\<rparr>\<rparr>)
     = ''rel.From(\"todos\")'' \<and>
   Query_String sql_text filter_text
     ((From ''todos'')\<lparr>SQLQuery := \<lparr>Statement = ''SELECT 1'', Values = []\<rparr>\<rparr>)
     \<noteq> spec_String filter_text
         ((From ''todos'')\<lparr>SQLQuery := \<lparr>Statement = ''SELECT 1'', Values = []\<rparr>\<rparr>) \<and>
   Query_String sql_text filter_text
     ((From ''users'')\<lparr>SQLQuery := \<lparr>Statement = ''SELECT 1'', Values = []\<rparr>\<rparr>)
     = Query_String sql_text filter_text
         ((From ''todos'')\<lparr>SQLQuery := \<lparr>Statement = ''SELECT 1'', Values = []\<rparr>\<rparr>) \<and>
   spec_String filter_text
     ((From ''users'')\<lparr>SQLQuery := \<lparr>Statement = ''SELECT 1'', Values = []\<rparr>\<rparr>)
     \<noteq> spec_String filter_text
         ((From ''todos'')\<lparr>SQLQuery := \<lparr>Statement = ''SELECT 1'', Values = []\<rparr>\<rparr>)"
  by (simp add: Query_String_raw sql_text_def spec_String_def spec_clauses_def clause_if_def
        From_def newQuery_def zero_query_def)

text \<open>
  C5, amended. For every query whose raw SQL statement is empty, \<^verbatim>\<open>String()\<close> is the root
  token followed by the clauses of \<open>spec_clauses\<close>, in that order: UsePrimary, From,
  Select, Distinct, one JoinWith per join, Where, Group with its nested Having, one
  SortAsc or SortDesc per sort, Limit, Offset, Lock, Unscoped, Reload, Cascade(false) and
  Preload; when no clause is emitted it is the empty string.
\<close>

theorem Query_String_clause_order:
  assumes "Statement (SQLQuery q) = []"
  shows "Query_String s f q = spec_String f q"
proof (cases "spec_clauses f q")
  case Nil
  with Query_String_builder [OF assms, of s f] show ?thesis
    by (simp add: spec_String_def)
next
  case (Cons c cs)
  with spec_clauses_nonempty [of f q] have "c \<noteq> []"
    by auto
  with Cons have "''rel'' @ concat (spec_clauses f q) \<noteq> ''rel''"
    by simp
  with Query_String_builder [OF assms, of s f] Cons show ?thesis
    by (simp add: spec_String_def)
qed

theorem Query_String_clause_order_witness:
  "Statement (SQLQuery (Query_Limit (Query_SortAsc (Query_Where (From ''todos'')
       [FPred ''completed'' ''='' (VBool True)]) [''id'']) 20)) = [] \<and>
   Query_String sql_text filter_text
     (Query_Limit (Query_SortAsc (Query_Where (From ''todos'')
       [FPred ''completed'' ''='' (VBool True)]) [''id'']) 20)
    = ''rel.From(\"todos\").Where(completed = true).SortAsc(\"id\").Limit(20)''"
proof -
  let ?q = "Query_Limit (Query_SortAsc (Query_Where (From ''todos'')
       [FPred ''completed'' ''='' (VBool True)]) [''id'']) 20"
  have st: "Statement (SQLQuery ?q) = []"
    by (simp add: Query_Limit_def Query_SortAsc_def Query_Where_def From_def newQuery_def
          zero_query_def)
  show ?thesis
    using st Query_String_clause_order [OF st, of sql_text filter_text]
    by (simp add: spec_String_def spec_clauses_def clause_if_def Sort_clause_def Asc_def
          NewSortAsc_def Itoa_def digits.simps FilterQuery_And_def Query_Limit_def Query_SortAsc_def
          Query_Where_def From_def newQuery_def zero_query_def)
qed

text \<open>
  C10. A query whose raw SQL statement is not empty renders as the raw query's own
  rendering: the result depends on no other field, so none of the builder clauses is
  emitted.
\<close>

theorem Query_String_raw_statement:
  "Statement (SQLQuery q) \<noteq> [] \<Longrightarrow>
     Query_String s f q = s (SQLQuery q) \<and>
     (\<forall>q'. SQLQuery q' = SQLQuery q \<longrightarrow> Query_String s f q' = Query_String s f q)"
  by (simp add: Query_String_def)

theorem Query_String_raw_statement_witness:
  "Statement (SQLQuery ((Query_Cascade (From ''todos'') False)
       \<lparr>SQLQuery := \<lparr>Statement = ''SELECT 1'', Values = []\<rparr>\<rparr>)) \<noteq> [] \<and>
   Query_String sql_text filter_text
     ((Query_Cascade (From ''todos'') False)\<lparr>SQLQuery := \<lparr>Statement = ''SELECT 1'', Values = []\<rparr>\<rparr>)
     = ''SELECT 1'' \<and>
   Query_String sql_text filter_text
     (zero_query\<lparr>SQLQuery := \<lparr>Statement = ''SELECT 1'', Values = []\<rparr>\<rparr>) = ''SELECT 1''"
proof -
  let ?q = "(Query_Cascade (From ''todos'') False)
              \<lparr>SQLQuery := \<lparr>Statement = ''SELECT 1'', Values = []\<rparr>\<rparr>"
  have st: "Statement (SQLQuery ?q) \<noteq> []" by simp
  show ?thesis
    using st Query_String_raw_statement [OF st, of sql_text filter_text]
    by (simp add: sql_text_def)
qed

subsection \<open>The cascade default\<close>













subsection \<open>OrWhere\<close>

lemma and_filter_holds: "holds \<rho> (and_filter a b) = (holds \<rho> a \<and> holds \<rho> b)"
  by (induction a b rule: and_filter.induct) auto

lemma and_filter_is_And:
  "\<not> FilterQuery_None a \<Longrightarrow> \<not> FilterQuery_None b \<Longrightarrow> \<exists>fs. and_filter a b = FAnd fs"
  by (induction a b rule: and_filter.induct) auto

lemma or_filter_is_Or:
  "\<not> FilterQuery_None a \<Longrightarrow> \<not> FilterQuery_None b \<Longrightarrow> \<exists>fs. or_filter a b = FOr fs"
  by (induction a b rule: or_filter.induct) auto

text \<open>
  C1. The where-clause of \<^verbatim>\<open>Where(a).Where(b).OrWhere(c)\<close> is the whole accumulated
  clause \<open>a AND b\<close> combined by OR with \<open>c\<close> (and likewise for \<^verbatim>\<open>OrWheref\<close>). For filters
  that are not the identity it is the "or" node of \<open>a AND b\<close> and \<open>c\<close>, it holds exactly
  when \<open>(a \<and> b) \<or> c\<close> does, and it is not \<open>a AND (b OR c)\<close>.
\<close>

theorem OrWhere_ors_whole_clause:
  "WhereQuery (Query_OrWhere (Query_Where (Where [a]) [b]) [c]) = or_filter (and_filter a b) c \<and>
   WhereQuery (Query_OrWheref (Query_Where (Where [a]) [b]) expr args)
     = or_filter (and_filter a b) (FilterFragment expr args) \<and>
   (\<not> FilterQuery_None a \<and> \<not> FilterQuery_None b \<and> \<not> FilterQuery_None c \<longrightarrow>
      WhereQuery (Query_OrWhere (Query_Where (Where [a]) [b]) [c]) = FOr [and_filter a b, c] \<and>
      (\<forall>\<rho>. holds \<rho> (WhereQuery (Query_OrWhere (Query_Where (Where [a]) [b]) [c]))
             = ((holds \<rho> a \<and> holds \<rho> b) \<or> holds \<rho> c)) \<and>
      WhereQuery (Query_OrWhere (Query_Where (Where [a]) [b]) [c])
        \<noteq> and_filter a (or_filter b c))"
proof -
  have w: "WhereQuery (Query_OrWhere (Query_Where (Where [a]) [b]) [c])
             = or_filter (and_filter a b) c"
    by (simp add: Query_OrWhere_def Query_Where_def Where_def And_filters_def FilterQuery_And_def
          FilterQuery_Or_def)
  have wf: "WhereQuery (Query_OrWheref (Query_Where (Where [a]) [b]) expr args)
              = or_filter (and_filter a b) (FilterFragment expr args)"
    by (simp add: Query_OrWheref_def Query_Where_def Where_def And_filters_def FilterQuery_And_def
          FilterQuery_Or_def)
  have rest: "or_filter (and_filter a b) c = FOr [and_filter a b, c] \<and>
      (\<forall>\<rho>. holds \<rho> (or_filter (and_filter a b) c)
             = ((holds \<rho> a \<and> holds \<rho> b) \<or> holds \<rho> c)) \<and>
      or_filter (and_filter a b) c \<noteq> and_filter a (or_filter b c)"
    if na: "\<not> FilterQuery_None a" and nb: "\<not> FilterQuery_None b" and nc: "\<not> FilterQuery_None c"
  proof -
    from and_filter_is_And [OF na nb] obtain fs where ab: "and_filter a b = FAnd fs" by blast
    from or_filter_is_Or [OF nb nc] obtain gs where bc: "or_filter b c = FOr gs" by blast
    have 1: "or_filter (and_filter a b) c = FOr [and_filter a b, c]"
      using nc by (cases c) (simp_all add: ab)
    from na bc obtain hs where 2: "and_filter a (or_filter b c) = FAnd hs"
      using and_filter_is_And [of a "or_filter b c"] by auto
    show ?thesis
      by (simp add: 1 2 and_filter_holds)
  qed
  show ?thesis
    unfolding w wf using rest by blast
qed

theorem OrWhere_ors_whole_clause_witness:
  "\<not> FilterQuery_None (FPred ''completed'' ''='' (VBool True)) \<and>
   \<not> FilterQuery_None (FPred ''owner'' ''='' (VStr ''ann'')) \<and>
   \<not> FilterQuery_None (FFragment ''priority > ?'' [VInt 3]) \<and>
   WhereQuery (Query_OrWhere (Query_Where (Where [FPred ''completed'' ''='' (VBool True)])
       [FPred ''owner'' ''='' (VStr ''ann'')]) [FFragment ''priority > ?'' [VInt 3]])
     = FOr [FAnd [FPred ''completed'' ''='' (VBool True), FPred ''owner'' ''='' (VStr ''ann'')],
            FFragment ''priority > ?'' [VInt 3]] \<and>
   holds ((=) (FFragment ''priority > ?'' [VInt 3]))
     (WhereQuery (Query_OrWhere (Query_Where (Where [FPred ''completed'' ''='' (VBool True)])
       [FPred ''owner'' ''='' (VStr ''ann'')]) [FFragment ''priority > ?'' [VInt 3]])) \<and>
   \<not> holds ((=) (FFragment ''priority > ?'' [VInt 3]))
     (and_filter (FPred ''completed'' ''='' (VBool True))
        (or_filter (FPred ''owner'' ''='' (VStr ''ann'')) (FFragment ''priority > ?'' [VInt 3])))"
  using OrWhere_ors_whole_clause [of "FPred ''completed'' ''='' (VBool True)"
          "FPred ''owner'' ''='' (VStr ''ann'')" "FFragment ''priority > ?'' [VInt 3]"]
  by simp

end
